theory Spec2Isabelle
  imports Main "HOL-Library.AList" "HOL-Library.Char_ord" "HOL-Library.List_Lexorder" "HOL-Library.Multiset"
begin

section \<open>Python values and string helpers\<close>

text \<open>
  The catalogue pipeline of \<^verbatim>\<open>update_menu_automator.py\<close> is a Python script. Its strings are
  modelled as HOL strings, the lists of the bytes of their UTF-8 encoding: the lexicographic
  order on byte lists is Python's order on code points. The
  scalar JSON values that the script reads from its two APIs are the type \<open>pyval\<close>; numbers
  with a fractional part (Python floats) are not part of the model, they are only ever copied.
\<close>

datatype pyval = PNone | PBool bool | PInt int | PStr string

datatype py_error =
    KeyError | AttributeError | ValueError | TypeError | IndexError | FileNotFoundError
  | HTTPError nat

text \<open>Truthiness, as \<^verbatim>\<open>if x\<close> and \<^verbatim>\<open>x or y\<close> test it.\<close>

fun truthy :: "pyval \<Rightarrow> bool" where
  "truthy PNone = False"
| "truthy (PBool b) = b"
| "truthy (PInt n) = (n \<noteq> 0)"
| "truthy (PStr s) = (s \<noteq> [])"

text \<open>\<^verbatim>\<open>d.get(k)\<close> on a parsed JSON object: the value, or \<^verbatim>\<open>None\<close> when the key is absent.\<close>

definition get_or_none :: "pyval option \<Rightarrow> pyval" where
  "get_or_none v = (case v of None \<Rightarrow> PNone | Some x \<Rightarrow> x)"

definition digit_char :: "nat \<Rightarrow> char" where
  "digit_char d = char_of (48 + d)"

fun str_of_nat :: "nat \<Rightarrow> string" where
  "str_of_nat n = (if n < 10 then [digit_char n] else str_of_nat (n div 10) @ [digit_char (n mod 10)])"

definition str_of_int :: "int \<Rightarrow> string" where
  "str_of_int i = (if i < 0 then CHR ''-'' # str_of_nat (nat (- i)) else str_of_nat (nat i))"

text \<open>\<^verbatim>\<open>str(v)\<close>.\<close>

fun py_str :: "pyval \<Rightarrow> string" where
  "py_str PNone = ''None''"
| "py_str (PBool b) = (if b then ''True'' else ''False'')"
| "py_str (PInt n) = str_of_int n"
| "py_str (PStr s) = s"

text \<open>\<open>starts_with a s\<close>: the string \<open>s\<close> begins with \<open>a\<close>.\<close>

fun starts_with :: "string \<Rightarrow> string \<Rightarrow> bool" where
  "starts_with [] s = True"
| "starts_with (a # as) [] = False"
| "starts_with (a # as) (c # cs) = (a = c \<and> starts_with as cs)"

text \<open>
  \<^verbatim>\<open>str.strip()\<close> removes leading and trailing whitespace characters. For Python these are
  the code points 9 to 13, 28 to 32, U+0085, U+00A0, U+1680, U+2000 to U+200A, U+2028,
  U+2029, U+202F, U+205F and U+3000; \<open>whitespace\<close> lists their UTF-8 encodings. In
  well-formed UTF-8 an encoded character at the end of a string is a suffix of its bytes,
  so the trailing characters are removed on the reversed string.
\<close>

definition whitespace :: "string list" where
  "whitespace =
     [[CHR 0x09], [CHR 0x0A], [CHR 0x0B], [CHR 0x0C], [CHR 0x0D], [CHR 0x1C], [CHR 0x1D],
      [CHR 0x1E], [CHR 0x1F], [CHR 0x20], [CHR 0xC2, CHR 0x85], [CHR 0xC2, CHR 0xA0],
      [CHR 0xE1, CHR 0x9A, CHR 0x80], [CHR 0xE2, CHR 0x80, CHR 0x80],
      [CHR 0xE2, CHR 0x80, CHR 0x81], [CHR 0xE2, CHR 0x80, CHR 0x82],
      [CHR 0xE2, CHR 0x80, CHR 0x83], [CHR 0xE2, CHR 0x80, CHR 0x84],
      [CHR 0xE2, CHR 0x80, CHR 0x85], [CHR 0xE2, CHR 0x80, CHR 0x86],
      [CHR 0xE2, CHR 0x80, CHR 0x87], [CHR 0xE2, CHR 0x80, CHR 0x88],
      [CHR 0xE2, CHR 0x80, CHR 0x89], [CHR 0xE2, CHR 0x80, CHR 0x8A],
      [CHR 0xE2, CHR 0x80, CHR 0xA8], [CHR 0xE2, CHR 0x80, CHR 0xA9],
      [CHR 0xE2, CHR 0x80, CHR 0xAF], [CHR 0xE2, CHR 0x81, CHR 0x9F],
      [CHR 0xE3, CHR 0x80, CHR 0x80]]"

fun lstrip :: "string list \<Rightarrow> string \<Rightarrow> string" where
  "lstrip ws [] = []"
| "lstrip ws (c # cs) =
     (case find (\<lambda>w. starts_with w (c # cs)) ws of
        None \<Rightarrow> c # cs
      | Some w \<Rightarrow> lstrip ws (drop (length w - 1) cs))"

definition strip :: "string \<Rightarrow> string" where
  "strip s = rev (lstrip (map rev whitespace) (rev (lstrip whitespace s)))"

text \<open>
  \<^verbatim>\<open>str.lower()\<close>: the letters A to Z are lowered, every other byte is left as it is. The
  rooms and the analyte words that the result is compared with are ASCII.
\<close>

definition lower_char :: "char \<Rightarrow> char" where
  "lower_char c = (let n = (of_char c :: nat) in if 65 \<le> n \<and> n \<le> 90 then char_of (n + 32) else c)"

definition lower :: "string \<Rightarrow> string" where
  "lower s = map lower_char s"

text \<open>\<^verbatim>\<open>s.replace(c, "")\<close> for a one-character pattern.\<close>

definition remove_char :: "char \<Rightarrow> string \<Rightarrow> string" where
  "remove_char c s = filter (\<lambda>x. x \<noteq> c) s"

text \<open>\<^verbatim>\<open>a in name\<close> on strings: \<open>a\<close> occurs in \<open>name\<close> as a contiguous piece.\<close>

fun contains :: "string \<Rightarrow> string \<Rightarrow> bool" where
  "contains a [] = (a = [])"
| "contains a (c # cs) = (starts_with a (c # cs) \<or> contains a cs)"

section \<open>Library functions taken as parameters\<close>

text \<open>
  Three parsers of the Python library are used by the script and are not part of the
  repository. They are parameters of the model, each returning \<open>None\<close> where the Python
  call raises:
  \<^item> \<open>lib_int s\<close> is \<^verbatim>\<open>int(s)\<close> on a string,
  \<^item> \<open>lib_money s\<close> is \<^verbatim>\<open>float(Decimal(s))\<close>, with \<open>'f\<close> the type of Python floats,
  \<^item> \<open>lib_loads s\<close> is \<^verbatim>\<open>json.loads(s)\<close>, with \<open>'j\<close> the type of its results.
\<close>

record ('f, 'j) pylib =
  lib_int :: "string \<Rightarrow> int option"
  lib_money :: "string \<Rightarrow> 'f option"
  lib_loads :: "string \<Rightarrow> 'j option"

section \<open>The spreadsheet\<close>

text \<open>
  \<^verbatim>\<open>xl.parse(sheet, dtype=str)\<close> gives a table whose cells are strings, or the float NaN for
  an empty cell. A sheet is its header and its rows; a workbook is the list of its named
  sheets, or \<open>None\<close> when the file cannot be opened.
\<close>

datatype cell = NaN | Str string

record sheet =
  sh_columns :: "string list"
  sh_rows :: "cell list list"

type_synonym workbook = "(string \<times> sheet) list"

text \<open>
  A row after \<^verbatim>\<open>df.columns = [c.strip() for c in df.columns]\<close>: \<^verbatim>\<open>row.get(k)\<close> is
  \<open>row k\<close>, \<open>None\<close> when there is no such column. (Header names are taken to be distinct
  after stripping, and every row to have one cell for each column.)
\<close>

definition row_of :: "string list \<Rightarrow> cell list \<Rightarrow> (string \<rightharpoonup> cell)" where
  "row_of cols cells = map_of (zip (map strip cols) cells)"

text \<open>\<^verbatim>\<open>pd.isna(x)\<close> on what \<^verbatim>\<open>row.get\<close> returns.\<close>

fun isna :: "cell option \<Rightarrow> bool" where
  "isna None = True"
| "isna (Some NaN) = True"
| "isna (Some (Str s)) = False"

text \<open>Truthiness of what \<^verbatim>\<open>row.get\<close> returns: the float NaN is not zero, so it is true.\<close>

fun cell_truthy :: "cell option \<Rightarrow> bool" where
  "cell_truthy None = False"
| "cell_truthy (Some NaN) = True"
| "cell_truthy (Some (Str s)) = (s \<noteq> [])"

text \<open>\<^verbatim>\<open>str(x)\<close> on what \<^verbatim>\<open>row.get\<close> returns.\<close>

fun cell_str :: "cell option \<Rightarrow> string" where
  "cell_str None = ''None''"
| "cell_str (Some NaN) = ''nan''"
| "cell_str (Some (Str s)) = s"

text \<open>
  \<^verbatim>\<open>int(mq)\<close>: \<^verbatim>\<open>int(None)\<close> raises \<^verbatim>\<open>TypeError\<close>, \<^verbatim>\<open>int(float('nan'))\<close> and a string
  that is no integer literal raise \<^verbatim>\<open>ValueError\<close>.
\<close>

fun cell_int :: "('f, 'j) pylib \<Rightarrow> cell option \<Rightarrow> py_error + int" where
  "cell_int L None = Inl TypeError"
| "cell_int L (Some NaN) = Inl ValueError"
| "cell_int L (Some (Str s)) = (case lib_int L s of None \<Rightarrow> Inl ValueError | Some n \<Rightarrow> Inr n)"

text \<open>The text that \<^verbatim>\<open>_to_money\<close> hands to \<^verbatim>\<open>Decimal\<close>.\<close>

definition money_text :: "string \<Rightarrow> string" where
  "money_text s = remove_char CHR '','' (remove_char CHR ''$'' (strip s))"

text \<open>\<^verbatim>\<open>_to_money(v)\<close>; the bare \<^verbatim>\<open>except\<close> turns every failure into \<^verbatim>\<open>None\<close>.\<close>

definition to_money :: "('f, 'j) pylib \<Rightarrow> cell option \<Rightarrow> 'f option" where
  "to_money L v = (case v of None \<Rightarrow> None | Some c \<Rightarrow> lib_money L (money_text (cell_str v)))"

record ('f, 'j) product =
  pr_price :: "'f option"
  pr_type :: "string option"
  pr_bulk_pricing :: "'j option"

type_synonym ('f, 'j) excel_map = "string \<rightharpoonup> ('f, 'j) product"

text \<open>The row filter \<^verbatim>\<open>df["Product"].notna() & (df["Product"].str.strip() != "")\<close>.\<close>

definition has_product :: "(string \<rightharpoonup> cell) \<Rightarrow> bool" where
  "has_product row = (case row ''Product'' of Some (Str s) \<Rightarrow> strip s \<noteq> [] | _ \<Rightarrow> False)"

definition product_name :: "(string \<rightharpoonup> cell) \<Rightarrow> string" where
  "product_name row = strip (cell_str (row ''Product''))"

definition product_entry :: "('f, 'j) pylib \<Rightarrow> (string \<rightharpoonup> cell) \<Rightarrow> ('f, 'j) product" where
  "product_entry L row =
     (let bulk_raw = row ''BulkPricing'';
          bulk = (if cell_truthy bulk_raw \<and> \<not> isna bulk_raw
                  then lib_loads L (cell_str bulk_raw) else None)
      in \<lparr> pr_price = to_money L (case row ''Price'' of None \<Rightarrow> Some (Str []) | Some c \<Rightarrow> Some c),
           pr_type = (if isna (row ''Type'') then None else Some (strip (cell_str (row ''Type'')))),
           pr_bulk_pricing = bulk \<rparr>)"

text \<open>The loop over the product rows: a later row with the same name replaces an earlier one.\<close>

fun product_rows :: "('f, 'j) pylib \<Rightarrow> (string \<rightharpoonup> cell) list \<Rightarrow> ('f, 'j) excel_map \<Rightarrow> ('f, 'j) excel_map" where
  "product_rows L [] m = m"
| "product_rows L (row # rows) m = product_rows L rows (m(product_name row \<mapsto> product_entry L row))"

record 'f bulk_rule =
  br_ProductGroup :: string
  br_MinQty :: int
  br_Price :: "'f option"

text \<open>The guard \<^verbatim>\<open>if pg and mq and pr\<close> on a row of the \<^verbatim>\<open>BulkRules\<close> sheet.\<close>

definition complete_row :: "(string \<rightharpoonup> cell) \<Rightarrow> bool" where
  "complete_row row =
     (cell_truthy (row ''ProductGroup'') \<and> cell_truthy (row ''MinQty'') \<and> cell_truthy (row ''Price''))"

text \<open>
  The loop over the rows of the \<^verbatim>\<open>BulkRules\<close> sheet. \<^verbatim>\<open>int(mq)\<close> is not guarded: when it
  raises, the exception leaves \<^verbatim>\<open>build_excel_map\<close>.
\<close>

fun bulk_rows :: "('f, 'j) pylib \<Rightarrow> (string \<rightharpoonup> cell) list \<Rightarrow> 'f bulk_rule list \<Rightarrow> py_error + 'f bulk_rule list" where
  "bulk_rows L [] acc = Inr acc"
| "bulk_rows L (row # rows) acc =
     (if complete_row row then
        (case cell_int L (row ''MinQty'') of
           Inl e \<Rightarrow> Inl e
         | Inr n \<Rightarrow> bulk_rows L rows
             (acc @ [\<lparr> br_ProductGroup = strip (cell_str (row ''ProductGroup'')), br_MinQty = n,
                      br_Price = to_money L (row ''Price'') \<rparr>]))
      else bulk_rows L rows acc)"

definition sheet_rows :: "sheet \<Rightarrow> (string \<rightharpoonup> cell) list" where
  "sheet_rows sh = map (row_of (sh_columns sh)) (sh_rows sh)"

text \<open>
  \<^verbatim>\<open>build_excel_map(path)\<close>. Opening a missing file raises; \<^verbatim>\<open>df["Product"]\<close> raises
  \<^verbatim>\<open>KeyError\<close> when the first sheet has no such column.
\<close>

definition build_excel_map ::
  "('f, 'j) pylib \<Rightarrow> workbook option \<Rightarrow> py_error + (('f, 'j) excel_map \<times> 'f bulk_rule list)" where
  "build_excel_map L file =
     (case file of
        None \<Rightarrow> Inl FileNotFoundError
      | Some xl \<Rightarrow>
         (case xl of
            [] \<Rightarrow> Inl IndexError
          | (name0, sheet0) # rest \<Rightarrow>
             if ''Product'' \<notin> set (map strip (sh_columns sheet0)) then Inl KeyError
             else
               (let product_map = product_rows L (filter has_product (sheet_rows sheet0)) Map.empty in
                case map_of xl ''BulkRules'' of
                  None \<Rightarrow> Inr (product_map, [])
                | Some br \<Rightarrow>
                   (case bulk_rows L (sheet_rows br) [] of
                      Inl e \<Rightarrow> Inl e
                    | Inr rules \<Rightarrow> Inr (product_map, rules)))))"

section \<open>Step 1: the inventory pages\<close>

text \<open>
  A package of the inventory API. \<^verbatim>\<open>pkg["Id"]\<close> is an integer, \<open>None\<close> when the key is absent
  (the subscript then raises \<^verbatim>\<open>KeyError\<close>). The other fields are \<open>None\<close> when the key is
  absent. \<open>pkg_Item\<close> is \<open>ItemDict n\<close> when \<^verbatim>\<open>pkg.get("Item")\<close> is a dict, with \<open>n\<close> what its
  key \<^verbatim>\<open>Name\<close> holds, and \<open>NotDict\<close> otherwise.
\<close>

datatype item_field = NotDict | ItemDict "pyval option"

record package =
  pkg_Id :: "int option"
  pkg_LocationName :: "pyval option"
  pkg_Item :: item_field
  pkg_ItemName :: "pyval option"
  pkg_Label :: "pyval option"
  pkg_Quantity :: "pyval option"

record page_response =
  pg_status :: nat
  pg_Data :: "package list option"
  pg_TotalPages :: "int option"

definition ROOMS :: "string list" where
  "ROOMS = [''vault - finished goods'', ''low inventory'']"

text \<open>
  \<^verbatim>\<open>pkg.get("LocationName", "").lower()\<close>: the default is used only when the key is absent,
  and a value that is not a string has no method \<^verbatim>\<open>lower\<close>.
\<close>

definition location_lower :: "package \<Rightarrow> py_error + string" where
  "location_lower pkg =
     (case pkg_LocationName pkg of
        None \<Rightarrow> Inr (lower [])
      | Some (PStr s) \<Rightarrow> Inr (lower s)
      | Some _ \<Rightarrow> Inl AttributeError)"

text \<open>
  \<^verbatim>\<open>item_name\<close> after \<^verbatim>\<open>if isinstance(pkg.get("Item"), dict): item_name = pkg["Item"].get("Name")\<close>.
\<close>

definition nested_name :: "package \<Rightarrow> pyval" where
  "nested_name pkg = (case pkg_Item pkg of ItemDict n \<Rightarrow> get_or_none n | NotDict \<Rightarrow> PNone)"

definition resolve_item_name :: "package \<Rightarrow> pyval" where
  "resolve_item_name pkg =
     (let item_name = nested_name pkg
      in if \<not> truthy item_name then get_or_none (pkg_ItemName pkg) else item_name)"

record 'f pm_entry =
  pm_Id :: int
  pm_Label :: pyval
  pm_ItemName :: string
  pm_Quantity :: pyval
  pm_Type :: "string option"
  pm_Price :: "'f option"

text \<open>
  \<^verbatim>\<open>packages_map\<close> is a Python dict: assigning to a key that is present replaces the value
  in place, a new key goes to the end. That is \<open>AList.update\<close>.
\<close>

type_synonym 'f pmap = "(int \<times> 'f pm_entry) list"

definition mk_entry :: "('f, 'j) excel_map \<Rightarrow> int \<Rightarrow> package \<Rightarrow> 'f pm_entry" where
  "mk_entry em i pkg =
     (let key = strip (py_str (resolve_item_name pkg)) in
      \<lparr> pm_Id = i,
        pm_Label = get_or_none (pkg_Label pkg),
        pm_ItemName = key,
        pm_Quantity = get_or_none (pkg_Quantity pkg),
        pm_Type = (case em key of None \<Rightarrow> None | Some e \<Rightarrow> pr_type e),
        pm_Price = (case em key of None \<Rightarrow> None | Some e \<Rightarrow> pr_price e) \<rparr>)"

definition process_pkg :: "('f, 'j) excel_map \<Rightarrow> package \<Rightarrow> 'f pmap \<Rightarrow> py_error + 'f pmap" where
  "process_pkg em pkg pm =
     (case location_lower pkg of
        Inl e \<Rightarrow> Inl e
      | Inr loc \<Rightarrow>
          if loc \<in> set ROOMS then
            (case pkg_Id pkg of
               None \<Rightarrow> Inl KeyError
             | Some i \<Rightarrow> Inr (AList.update i (mk_entry em i pkg) pm))
          else Inr pm)"

text \<open>The loop \<^verbatim>\<open>for pkg in data.get("Data", [])\<close>.\<close>

fun process_page :: "('f, 'j) excel_map \<Rightarrow> package list \<Rightarrow> 'f pmap \<Rightarrow> py_error + 'f pmap" where
  "process_page em [] pm = Inr pm"
| "process_page em (pkg # pkgs) pm =
     (case process_pkg em pkg pm of Inl e \<Rightarrow> Inl e | Inr pm' \<Rightarrow> process_page em pkgs pm')"

definition page_data :: "page_response \<Rightarrow> package list" where
  "page_data resp = (case pg_Data resp of None \<Rightarrow> [] | Some d \<Rightarrow> d)"

definition total_pages :: "page_response \<Rightarrow> int" where
  "total_pages resp = (case pg_TotalPages resp of None \<Rightarrow> 1 | Some n \<Rightarrow> n)"

text \<open>\<^verbatim>\<open>resp.raise_for_status()\<close> raises for the statuses 400 to 599.\<close>

definition is_http_error :: "nat \<Rightarrow> bool" where
  "is_http_error sc = (400 \<le> sc \<and> sc < 600)"

text \<open>
  The loop \<^verbatim>\<open>while True\<close> over the pages. The inventory API is a function from the page
  number requested to its response. The loop may run forever (an API whose page count grows
  with every request), so the result is an option: \<open>None\<close> is a run that never leaves the loop.
  The result carries the list of the page numbers requested, in order.
\<close>

partial_function (option) fetch_pages ::
  "(int \<Rightarrow> page_response) \<Rightarrow> ('f, 'j) excel_map \<Rightarrow> int \<Rightarrow> int list \<Rightarrow> 'f pmap
     \<Rightarrow> (int list \<times> (py_error + 'f pmap)) option" where
  "fetch_pages api em page log pm =
     (let resp = api page; log' = log @ [page] in
      if is_http_error (pg_status resp) then Some (log', Inl (HTTPError (pg_status resp)))
      else
        (case process_page em (page_data resp) pm of
           Inl e \<Rightarrow> Some (log', Inl e)
         | Inr pm' \<Rightarrow>
             if page \<ge> total_pages resp then Some (log', Inr pm')
             else fetch_pages api em (page + 1) log' pm'))"

declare fetch_pages.simps [code]

section \<open>Step 2: the lab results\<close>

record lab_rec =
  rec_TestTypeName :: "pyval option"
  rec_TestResultLevel :: "pyval option"

record lab_response =
  lr_status :: nat
  lr_Data :: "lab_rec list option"

record lab_result =
  lab_TestTypeName :: pyval
  lab_TestResultLevel :: pyval

definition ANALYTES :: "string list" where
  "ANALYTES = [''thc'', ''thca'', ''cbd'', ''cbda'', ''cbg'', ''cbc'', ''cbn'', ''limonene'',
     ''myrcene'', ''pinene'', ''linalool'', ''caryophyllene'']"

text \<open>\<^verbatim>\<open>(rec.get("TestTypeName") or "").lower()\<close>.\<close>

definition test_name_lower :: "lab_rec \<Rightarrow> py_error + string" where
  "test_name_lower r =
     (let v = get_or_none (rec_TestTypeName r) in
      case (if truthy v then v else PStr []) of
        PStr s \<Rightarrow> Inr (lower s)
      | _ \<Rightarrow> Inl AttributeError)"

definition mk_lab :: "lab_rec \<Rightarrow> lab_result" where
  "mk_lab r = \<lparr> lab_TestTypeName = get_or_none (rec_TestTypeName r),
               lab_TestResultLevel = get_or_none (rec_TestResultLevel r) \<rparr>"

text \<open>The loop \<^verbatim>\<open>for rec in lr.json().get("Data", [])\<close>, appending to \<^verbatim>\<open>lab_by_pkg[pid]\<close>.\<close>

fun lab_filter :: "string list \<Rightarrow> lab_rec list \<Rightarrow> lab_result list \<Rightarrow> py_error + lab_result list" where
  "lab_filter an [] acc = Inr acc"
| "lab_filter an (r # rs) acc =
     (case test_name_lower r of
        Inl e \<Rightarrow> Inl e
      | Inr name \<Rightarrow>
          if list_ex (\<lambda>a. contains a name) an then lab_filter an rs (acc @ [mk_lab r])
          else lab_filter an rs acc)"

type_synonym labmap = "(int \<times> lab_result list) list"

definition lab_data :: "lab_response \<Rightarrow> lab_rec list" where
  "lab_data lr = (case lr_Data lr of None \<Rightarrow> [] | Some d \<Rightarrow> d)"

text \<open>
  The loop \<^verbatim>\<open>for pid in packages_map\<close> of \<^verbatim>\<open>update_menu_automator.py\<close>. The lab API is a
  function from the package id to its response. A status other than 200 has no branch: the
  list of that package stays as it is.
\<close>

fun pull_labs :: "(int \<Rightarrow> lab_response) \<Rightarrow> int list \<Rightarrow> labmap \<Rightarrow> py_error + labmap" where
  "pull_labs labs [] lm = Inr lm"
| "pull_labs labs (pid # pids) lm =
     (let lr = labs pid in
      if lr_status lr = 200 then
        (case map_of lm pid of
           None \<Rightarrow> Inl KeyError
         | Some cur \<Rightarrow>
            (case lab_filter ANALYTES (lab_data lr) cur of
               Inl e \<Rightarrow> Inl e
             | Inr cur' \<Rightarrow> pull_labs labs pids (AList.update pid cur' lm)))
      else pull_labs labs pids lm)"

text \<open>
  The sort key \<^verbatim>\<open>x["TestTypeName"] or ""\<close>. Every record that \<open>lab_filter\<close> keeps has
  a string as its name (lemma \<open>lab_filter_names\<close> below), so the key is that string.
\<close>

definition lab_key :: "lab_result \<Rightarrow> string" where
  "lab_key x = (case lab_TestTypeName x of PStr s \<Rightarrow> s | _ \<Rightarrow> [])"

text \<open>\<^verbatim>\<open>sorted(xs, key=...)\<close> is a stable sort, as \<open>sort_key\<close> is.\<close>

definition sort_labs :: "labmap \<Rightarrow> labmap" where
  "sort_labs lm = map (\<lambda>(pid, l). (pid, sort_key lab_key l)) lm"

definition init_labs :: "'f pmap \<Rightarrow> labmap" where
  "init_labs pm = map (\<lambda>(pid, e). (pid, [])) pm"

section \<open>The final document\<close>

record 'f catalog_record =
  cr_Id :: int
  cr_Label :: pyval
  cr_ItemName :: string
  cr_Quantity :: pyval
  cr_Type :: "string option"
  cr_Price :: "'f option"
  cr_LabResults :: "lab_result list"

record 'f payload =
  items :: "'f catalog_record list"
  bulkRules :: "'f bulk_rule list"

definition mk_record :: "labmap \<Rightarrow> 'f pm_entry \<Rightarrow> 'f catalog_record" where
  "mk_record lm pkg =
     \<lparr> cr_Id = pm_Id pkg, cr_Label = pm_Label pkg, cr_ItemName = pm_ItemName pkg,
       cr_Quantity = pm_Quantity pkg, cr_Type = pm_Type pkg, cr_Price = pm_Price pkg,
       cr_LabResults = (case map_of lm (pm_Id pkg) of None \<Rightarrow> [] | Some l \<Rightarrow> l) \<rparr>"

definition final :: "'f pmap \<Rightarrow> labmap \<Rightarrow> 'f catalog_record list" where
  "final pm lm = map (mk_record lm) (sort_key pm_Id (map snd pm))"

text \<open>
  Everything up to \<^verbatim>\<open>payload\<close>: the pages requested, and the payload or the exception that
  ended the run.
\<close>

definition build_payload ::
  "('f, 'j) pylib \<Rightarrow> workbook option \<Rightarrow> (int \<Rightarrow> page_response) \<Rightarrow> (int \<Rightarrow> lab_response)
     \<Rightarrow> (int list \<times> (py_error + 'f payload)) option" where
  "build_payload L file api labs =
     (case build_excel_map L file of
        Inl e \<Rightarrow> Some ([], Inl e)
      | Inr (excel_map, bulk_rules) \<Rightarrow>
         (case fetch_pages api excel_map 1 [] [] of
            None \<Rightarrow> None
          | Some (log, Inl e) \<Rightarrow> Some (log, Inl e)
          | Some (log, Inr packages_map) \<Rightarrow>
             (case pull_labs labs (map fst packages_map) (init_labs packages_map) of
                Inl e \<Rightarrow> Some (log, Inl e)
              | Inr lab_by_pkg \<Rightarrow>
                  Some (log, Inr \<lparr> items = final packages_map (sort_labs lab_by_pkg),
                                  bulkRules = bulk_rules \<rparr>))))"

section \<open>Change detection and publication\<close>

text \<open>
  The outside world of the last step: \<open>env_dumps\<close> is \<^verbatim>\<open>json.dumps\<close> followed by the UTF-8
  encoding, \<open>env_sha256\<close> is the hex digest of SHA-256, and \<open>env_git_pull\<close> is
  \<^verbatim>\<open>git pull --rebase origin main\<close>: given the content of \<^verbatim>\<open>menu.json\<close> (\<open>None\<close> when the file
  does not exist) it says whether the command succeeded and what the file holds afterwards.
\<close>

record 'f env =
  env_dumps :: "'f payload \<Rightarrow> string"
  env_sha256 :: "string \<Rightarrow> string"
  env_git_pull :: "string option \<Rightarrow> bool \<times> string option"

datatype action = GitPull | WriteFile string | GitAdd | GitCommit | GitPush

definition file_hash :: "'f env \<Rightarrow> string option \<Rightarrow> string option" where
  "file_hash E path = (case path of None \<Rightarrow> None | Some bytes \<Rightarrow> Some (env_sha256 E bytes))"

text \<open>
  The end of the script from \<^verbatim>\<open>old_hash\<close> on: the operations performed on the repository,
  the exit code and the content of \<^verbatim>\<open>menu.json\<close> afterwards.
\<close>

definition publish :: "'f env \<Rightarrow> string \<Rightarrow> string option \<Rightarrow> action list \<times> nat \<times> string option" where
  "publish E new_json file =
     (let old_hash = file_hash E file; new_hash = env_sha256 E new_json in
      if old_hash = Some new_hash then ([], 0, file)
      else
        (case env_git_pull E file of
           (False, file') \<Rightarrow> ([GitPull], 1, file')
         | (True, file') \<Rightarrow>
             ([GitPull, WriteFile new_json, GitAdd, GitCommit, GitPush], 0, Some new_json)))"

text \<open>One run of the script; an exception that nothing catches ends it with exit code 1.\<close>

definition run_script ::
  "('f, 'j) pylib \<Rightarrow> 'f env \<Rightarrow> workbook option \<Rightarrow> (int \<Rightarrow> page_response) \<Rightarrow> (int \<Rightarrow> lab_response)
     \<Rightarrow> string option \<Rightarrow> (action list \<times> nat \<times> string option) option" where
  "run_script L E xl api labs file =
     (case build_payload L xl api labs of
        None \<Rightarrow> None
      | Some (log, Inl e) \<Rightarrow> Some ([], 1, file)
      | Some (log, Inr p) \<Rightarrow> Some (publish E (env_dumps E p) file))"

section \<open>The older script variant: lab results\<close>

text \<open>
  The repository holds a second variant of the script (\<^verbatim>\<open>update_menu Automator.py\<close>). Its
  lab-result loop differs from the one above in three places: the vocabulary, the name test
  \<^verbatim>\<open>rec.get("TestTypeName", "").lower()\<close>, and the branch
  \<^verbatim>\<open>elif lr.status_code != 404: lr.raise_for_status()\<close>. The list below is the vocabulary
  after \<^verbatim>\<open>a.lower()\<close>; its ninth entry starts with the two bytes of the Greek small delta.
\<close>

definition ANALYTES_legacy :: "string list" where
  "ANALYTES_legacy = [''cbd'', ''cbda'', ''cbn'', ''thc'', ''thca'', ''cbdv'', ''cbg'', ''cbga'',
     [CHR 0xCE, CHR 0xB4] @ ''8-thc'', ''thcv'', ''cbc'',
     ''alpha-pinene'', ''camphene'', ''sabinene'', ''beta-pinene'', ''beta-myrcene'', ''3-carene'',
     ''alpha-terpinene'', ''p-cymene'', ''d-limonene'', ''eucalyptol'', ''o-cymene'', ''gamma-terpinene'',
     ''sabinene hydrate'', ''terpinolene'', ''enochone'', ''linalool'', ''fenchol'', ''isopulegol'',
     ''camphor'', ''isoborneol'', ''borneol'', ''menthol'', ''terpineol'', ''nerol'', ''pulegone'',
     ''geraniol'', ''geraniol acetate'', ''alpha-cedrene'', ''beta-caryophyllene'', ''alpha-humulene'',
     ''valencene'', ''cis-nerolidol'', ''trans-nerolidol'', ''caryophyllene oxide'', ''guaio1'',
     ''cedrol'', ''alpha-bisabolol'']"

definition legacy_test_name_lower :: "lab_rec \<Rightarrow> py_error + string" where
  "legacy_test_name_lower r =
     (case rec_TestTypeName r of
        None \<Rightarrow> Inr (lower [])
      | Some (PStr s) \<Rightarrow> Inr (lower s)
      | Some _ \<Rightarrow> Inl AttributeError)"

fun legacy_lab_filter :: "lab_rec list \<Rightarrow> lab_result list \<Rightarrow> py_error + lab_result list" where
  "legacy_lab_filter [] acc = Inr acc"
| "legacy_lab_filter (r # rs) acc =
     (case legacy_test_name_lower r of
        Inl e \<Rightarrow> Inl e
      | Inr name \<Rightarrow>
          if list_ex (\<lambda>a. contains a name) ANALYTES_legacy then legacy_lab_filter rs (acc @ [mk_lab r])
          else legacy_lab_filter rs acc)"

fun legacy_pull_labs :: "(int \<Rightarrow> lab_response) \<Rightarrow> int list \<Rightarrow> labmap \<Rightarrow> py_error + labmap" where
  "legacy_pull_labs labs [] lm = Inr lm"
| "legacy_pull_labs labs (pid # pids) lm =
     (let lr = labs pid in
      if lr_status lr = 200 then
        (case map_of lm pid of
           None \<Rightarrow> Inl KeyError
         | Some cur \<Rightarrow>
            (case legacy_lab_filter (lab_data lr) cur of
               Inl e \<Rightarrow> Inl e
             | Inr cur' \<Rightarrow> legacy_pull_labs labs pids (AList.update pid cur' lm)))
      else if lr_status lr \<noteq> 404 then
        (if is_http_error (lr_status lr) then Inl (HTTPError (lr_status lr))
         else legacy_pull_labs labs pids lm)
      else legacy_pull_labs labs pids lm)"

text \<open>
  Step 2 of the older variant: the loop sits in \<^verbatim>\<open>try\<close>, and the handler prints the exception
  and calls \<^verbatim>\<open>sys.exit(1)\<close>, before anything is written. \<open>Inl c\<close> is the exit with code \<open>c\<close>.
\<close>

definition legacy_step2 :: "(int \<Rightarrow> lab_response) \<Rightarrow> int list \<Rightarrow> nat + labmap" where
  "legacy_step2 labs pids =
     (case legacy_pull_labs labs pids (map (\<lambda>pid. (pid, [])) pids) of
        Inl e \<Rightarrow> Inl 1
      | Inr lab_by_pkg \<Rightarrow> Inr lab_by_pkg)"

section \<open>Notions used in the statements\<close>

text \<open>A package is retained when its lowercased location name is in \<open>ROOMS\<close>.\<close>

definition retained :: "package \<Rightarrow> bool" where
  "retained pkg = (case location_lower pkg of Inl e \<Rightarrow> False | Inr loc \<Rightarrow> loc \<in> set ROOMS)"

text \<open>The packages of the pages requested, in the order in which the script sees them.\<close>

definition seen :: "(int \<Rightarrow> page_response) \<Rightarrow> int list \<Rightarrow> package list" where
  "seen api log = concat (map (\<lambda>k. page_data (api k)) log)"

text \<open>The retained packages with a given id among a list of packages.\<close>

definition versions :: "int \<Rightarrow> package list \<Rightarrow> package list" where
  "versions i pkgs = filter (\<lambda>q. retained q \<and> pkg_Id q = Some i) pkgs"


text \<open>The fields that a catalogue record takes over from the entry of \<^verbatim>\<open>packages_map\<close>.\<close>

definition entry_of :: "'f catalog_record \<Rightarrow> 'f pm_entry" where
  "entry_of r = \<lparr> pm_Id = cr_Id r, pm_Label = cr_Label r, pm_ItemName = cr_ItemName r,
                  pm_Quantity = cr_Quantity r, pm_Type = cr_Type r, pm_Price = cr_Price r \<rparr>"

text \<open>The product map that \<^verbatim>\<open>build_excel_map\<close> returns, empty when it raises.\<close>

definition loaded_excel_map :: "('f, 'j) pylib \<Rightarrow> workbook option \<Rightarrow> ('f, 'j) excel_map" where
  "loaded_excel_map L xl = (case build_excel_map L xl of Inl e \<Rightarrow> Map.empty | Inr (em, rules) \<Rightarrow> em)"

section \<open>A worked example\<close>

text \<open>
  One run on small data, used to instantiate the theorems below. Floats are written as the
  strings that Python prints for them, and the three library parsers are given on the
  strings that occur in the example: \<^verbatim>\<open>int("10")\<close> is 10, \<^verbatim>\<open>float(Decimal("45.00"))\<close> is
  45.0, \<^verbatim>\<open>float(Decimal("40.00"))\<close> is 40.0, \<^verbatim>\<open>float(Decimal("nan"))\<close> is the float NaN,
  which Python prints as \<^verbatim>\<open>nan\<close>, and the other strings of the example (\<^verbatim>\<open>"ten"\<close>,
  \<^verbatim>\<open>"call us"\<close>) are rejected.
\<close>

definition example_lib :: "(string, unit) pylib" where
  "example_lib =
     \<lparr> lib_int = (\<lambda>s. if s = ''10'' then Some 10 else None),
       lib_money = (\<lambda>s. if s = ''45.00'' then Some ''45.0'' else if s = ''40.00'' then Some ''40.0''
                        else if s = ''nan'' then Some ''nan'' else None),
       lib_loads = (\<lambda>s. None) \<rparr>"

definition example_bulk_sheet :: "cell list list \<Rightarrow> sheet" where
  "example_bulk_sheet rules =
     \<lparr> sh_columns = [''ProductGroup'', ''MinQty'', ''Price''], sh_rows = rules \<rparr>"

definition example_columns :: "string list" where
  "example_columns = [''Product'', ''Price '', ''Type'']"

text \<open>The workbook, with the rows of its \<^verbatim>\<open>BulkRules\<close> sheet left open.\<close>

definition example_workbook_with :: "cell list list \<Rightarrow> workbook" where
  "example_workbook_with rules =
     [(''Products'',
        \<lparr> sh_columns = example_columns,
          sh_rows = [[Str ''Blue Dream 3.5g'', Str ''$45.00'', Str ''Flower''],
                     [Str ''Mystery Box'', Str ''call us'', NaN]] \<rparr>),
      (''BulkRules'', example_bulk_sheet rules)]"

definition example_workbook :: workbook where
  "example_workbook = example_workbook_with [[Str ''Flower'', Str ''10'', Str ''$40.00'']]"

definition example_pkg :: "int \<Rightarrow> string \<Rightarrow> item_field \<Rightarrow> pyval option \<Rightarrow> int \<Rightarrow> package" where
  "example_pkg i loc item nm qty =
     \<lparr> pkg_Id = Some i, pkg_LocationName = Some (PStr loc), pkg_Item = item, pkg_ItemName = nm,
       pkg_Label = Some (PStr (''1A40'' @ str_of_int i)), pkg_Quantity = Some (PInt qty) \<rparr>"

text \<open>Two pages; package 7 comes on both, package 9 sits in a room that is not listed.\<close>

definition example_api :: "int \<Rightarrow> page_response" where
  "example_api page =
     (if page = 1 then
        \<lparr> pg_status = 200,
          pg_Data = Some [example_pkg 7 ''Vault - Finished Goods'' NotDict (Some (PStr ''Blue Dream 3.5g'')) 12,
                          example_pkg 9 ''Quarantine'' NotDict (Some (PStr ''Blue Dream 3.5g'')) 4],
          pg_TotalPages = Some 2 \<rparr>
      else if page = 2 then
        \<lparr> pg_status = 200,
          pg_Data = Some [example_pkg 5 ''LOW INVENTORY'' NotDict None 2,
                          example_pkg 3 ''Low Inventory'' (ItemDict (Some (PStr ''Unlisted Item ''))) None 1,
                          example_pkg 7 ''Vault - Finished Goods'' NotDict (Some (PStr ''Blue Dream 3.5g'')) 11],
          pg_TotalPages = Some 2 \<rparr>
      else \<lparr> pg_status = 404, pg_Data = None, pg_TotalPages = None \<rparr>)"

definition example_labs :: "int \<Rightarrow> lab_response" where
  "example_labs pid =
     (if pid = 7 then
        \<lparr> lr_status = 200,
          lr_Data = Some [\<lparr> rec_TestTypeName = Some (PStr ''THC''), rec_TestResultLevel = Some (PStr ''21.4'') \<rparr>,
                          \<lparr> rec_TestTypeName = Some (PStr ''Moisture''), rec_TestResultLevel = Some (PStr ''9'') \<rparr>,
                          \<lparr> rec_TestTypeName = Some (PStr ''CBD''), rec_TestResultLevel = Some (PStr ''0.3'') \<rparr>] \<rparr>
      else \<lparr> lr_status = 404, lr_Data = None \<rparr>)"

definition example_items :: "lab_result list \<Rightarrow> string catalog_record list" where
  "example_items labs7 =
     [\<lparr> cr_Id = 3, cr_Label = PStr ''1A403'', cr_ItemName = ''Unlisted Item'', cr_Quantity = PInt 1,
        cr_Type = None, cr_Price = None, cr_LabResults = [] \<rparr>,
      \<lparr> cr_Id = 5, cr_Label = PStr ''1A405'', cr_ItemName = ''None'', cr_Quantity = PInt 2,
        cr_Type = None, cr_Price = None, cr_LabResults = [] \<rparr>,
      \<lparr> cr_Id = 7, cr_Label = PStr ''1A407'', cr_ItemName = ''Blue Dream 3.5g'', cr_Quantity = PInt 11,
        cr_Type = Some ''Flower'', cr_Price = Some ''45.0'', cr_LabResults = labs7 \<rparr>]"

definition example_rule :: "string option \<Rightarrow> string bulk_rule" where
  "example_rule price = \<lparr> br_ProductGroup = ''Flower'', br_MinQty = 10, br_Price = price \<rparr>"

definition example_payload :: "string payload" where
  "example_payload =
     \<lparr> items = example_items
                 [\<lparr> lab_TestTypeName = PStr ''CBD'', lab_TestResultLevel = PStr ''0.3'' \<rparr>,
                  \<lparr> lab_TestTypeName = PStr ''THC'', lab_TestResultLevel = PStr ''21.4'' \<rparr>],
       bulkRules = [example_rule (Some ''40.0'')] \<rparr>"

text \<open>A lab API that answers every request with the status 500.\<close>

definition example_labs_500 :: "int \<Rightarrow> lab_response" where
  "example_labs_500 pid = \<lparr> lr_status = 500, lr_Data = None \<rparr>"

text \<open>An inventory of one package whose flat item name is the empty string.\<close>

definition example_api_blank :: "int \<Rightarrow> page_response" where
  "example_api_blank page =
     \<lparr> pg_status = 200,
       pg_Data = Some [example_pkg 5 ''Low Inventory'' NotDict (Some (PStr [])) 2],
       pg_TotalPages = None \<rparr>"


text \<open>
  An outside world for the last step of the example. The theorems hold for every serialiser
  and every digest; here the serialiser writes the item names and the lab-result names, the
  digest is the identity, and \<^verbatim>\<open>git pull\<close> succeeds and leaves \<^verbatim>\<open>menu.json\<close> alone.
\<close>

definition example_env :: "string env" where
  "example_env =
     \<lparr> env_dumps = (\<lambda>p. concat (map (\<lambda>r. cr_ItemName r @ '':'' @ concat (map (\<lambda>x. lab_key x @ '','') (cr_LabResults r)) @ '';'') (items p))),
       env_sha256 = (\<lambda>bytes. bytes),
       env_git_pull = (\<lambda>file. (True, file)) \<rparr>"




definition example_lab :: "string \<Rightarrow> string \<Rightarrow> lab_result" where
  "example_lab name level = \<lparr> lab_TestTypeName = PStr name, lab_TestResultLevel = PStr level \<rparr>"

text \<open>The workbook of the example with the price cell of its first product row left empty.\<close>

definition example_workbook_no_price :: workbook where
  "example_workbook_no_price =
     [(''Products'',
        \<lparr> sh_columns = example_columns,
          sh_rows = [[Str ''Blue Dream 3.5g'', NaN, Str ''Flower'']] \<rparr>)]"

section \<open>Properties\<close>

subsection \<open>The packages map\<close>

lemma process_pkg_Inr:
  "process_pkg em pkg pm = Inr pm' \<Longrightarrow>
     (retained pkg \<longrightarrow> (\<exists>i. pkg_Id pkg = Some i \<and> pm' = AList.update i (mk_entry em i pkg) pm))
   \<and> (\<not> retained pkg \<longrightarrow> pm' = pm)"
  by (auto simp: process_pkg_def retained_def split: sum.splits if_splits option.splits)

lemma versions_Cons:
  "versions i (q # qs) = (if retained q \<and> pkg_Id q = Some i then q # versions i qs else versions i qs)"
  by (simp add: versions_def)

lemma versions_append: "versions i (xs @ ys) = versions i xs @ versions i ys"
  by (simp add: versions_def)

lemma process_page_map_of:
  "process_page em pkgs pm = Inr pm' \<Longrightarrow>
   map_of pm' i = (if versions i pkgs = [] then map_of pm i else Some (mk_entry em i (last (versions i pkgs))))"
proof (induction pkgs arbitrary: pm)
  case Nil
  then show ?case by (simp add: versions_def)
next
  case (Cons q qs)
  from Cons.prems obtain pm1 where s1: "process_pkg em q pm = Inr pm1"
    and s2: "process_page em qs pm1 = Inr pm'"
    by (auto split: sum.splits)
  note ih = Cons.IH[OF s2]
  from process_pkg_Inr[OF s1] show ?case
    using ih by (cases "retained q") (auto simp: versions_Cons update_conv')
qed

lemma process_page_distinct:
  "process_page em pkgs pm = Inr pm' \<Longrightarrow> distinct (map fst pm) \<Longrightarrow> distinct (map fst pm')"
proof (induction pkgs arbitrary: pm)
  case Nil
  then show ?case by simp
next
  case (Cons q qs)
  from Cons.prems obtain pm1 where s1: "process_pkg em q pm = Inr pm1"
    and s2: "process_page em qs pm1 = Inr pm'"
    by (auto split: sum.splits)
  from process_pkg_Inr[OF s1] Cons.prems(2) have "distinct (map fst pm1)"
    by (cases "retained q") (auto simp: distinct_update)
  with Cons.IH[OF s2] show ?case .
qed

lemma process_page_append:
  "process_page em (xs @ ys) pm =
     (case process_page em xs pm of Inl e \<Rightarrow> Inl e | Inr pm1 \<Rightarrow> process_page em ys pm1)"
  by (induction xs arbitrary: pm) (auto split: sum.splits)

lemma fetch_pages_sound:
  assumes "fetch_pages api em page log pm = Some res"
  shows "\<exists>ks. fst res = log @ ks \<and> (\<forall>pm'. snd res = Inr pm' \<longrightarrow> process_page em (seen api ks) pm = Inr pm')"
  using assms
proof (induction api em page log pm res rule: fetch_pages.raw_induct[rotated 1, consumes 1])
  case (1 fetch api em page log pm res)
  show ?case
  proof (cases "is_http_error (pg_status (api page))")
    case True
    with 1(2) show ?thesis by (auto simp: Let_def)
  next
    case False
    show ?thesis
    proof (cases "process_page em (page_data (api page)) pm")
      case (Inl e)
      with False 1(2) show ?thesis by (auto simp: Let_def)
    next
      case (Inr pm1)
      show ?thesis
      proof (cases "page \<ge> total_pages (api page)")
        case True
        with False Inr 1(2) show ?thesis by (auto simp: Let_def seen_def)
      next
        case F2: False
        with False Inr 1(2) have "fetch api em (page + 1) (log @ [page]) pm1 = Some res"
          by (auto simp: Let_def)
        from 1(1)[OF this] obtain ks where ks: "fst res = (log @ [page]) @ ks"
          "\<forall>pm'. snd res = Inr pm' \<longrightarrow> process_page em (seen api ks) pm1 = Inr pm'" by blast
        have "fst res = log @ (page # ks)" using ks(1) by simp
        moreover have "\<forall>pm'. snd res = Inr pm' \<longrightarrow> process_page em (seen api (page # ks)) pm = Inr pm'"
          using ks(2) Inr by (simp add: seen_def process_page_append)
        ultimately show ?thesis by blast
      qed
    qed
  qed
qed

lemma fetch_pages_entries:
  assumes "fetch_pages api em 1 [] [] = Some (log, Inr pm)"
  shows "process_page em (seen api log) [] = Inr pm"
  using fetch_pages_sound[OF assms] by simp

lemma pmap_entries:
  assumes "process_page em pkgs [] = Inr pm"
  shows "distinct (map fst pm)"
    and "(k, e) \<in> set pm \<Longrightarrow> versions k pkgs \<noteq> [] \<and> e = mk_entry em k (last (versions k pkgs))"
    and "versions k pkgs \<noteq> [] \<Longrightarrow> (k, mk_entry em k (last (versions k pkgs))) \<in> set pm"
proof -
  show d: "distinct (map fst pm)" using process_page_distinct[OF assms] by simp
  have m: "map_of pm i = (if versions i pkgs = [] then None else Some (mk_entry em i (last (versions i pkgs))))" for i
    using process_page_map_of[OF assms, of i] by simp
  show "(k, e) \<in> set pm \<Longrightarrow> versions k pkgs \<noteq> [] \<and> e = mk_entry em k (last (versions k pkgs))"
    using m[of k] d by (auto split: if_splits)
  show "versions k pkgs \<noteq> [] \<Longrightarrow> (k, mk_entry em k (last (versions k pkgs))) \<in> set pm"
    using m[of k] by (auto dest: map_of_SomeD)
qed

lemma mk_entry_Id [simp]: "pm_Id (mk_entry em i pkg) = i"
  by (simp add: mk_entry_def Let_def)

lemma pmap_ids:
  assumes "process_page em pkgs [] = Inr pm"
  shows "map pm_Id (map snd pm) = map fst pm"
proof -
  have "pm_Id (snd x) = fst x" if "x \<in> set pm" for x
    using pmap_entries(2)[OF assms, of "fst x" "snd x"] that by simp
  then show ?thesis by simp
qed

lemma entry_of_mk_record [simp]: "entry_of (mk_record lm e) = e"
  by (simp add: entry_of_def mk_record_def)

lemma cr_Id_mk_record [simp]: "cr_Id (mk_record lm e) = pm_Id e"
  by (simp add: mk_record_def)

lemma final_ids: "map cr_Id (final pm lm) = map pm_Id (sort_key pm_Id (map snd pm))"
  by (simp add: final_def comp_def)

lemma final_sorted: "sorted (map cr_Id (final pm lm))"
  unfolding final_ids by (rule sorted_sort_key)

lemma final_distinct:
  assumes "process_page em pkgs [] = Inr pm"
  shows "distinct (map cr_Id (final pm lm))"
proof -
  have "mset (map cr_Id (final pm lm)) = image_mset pm_Id (mset (sort_key pm_Id (map snd pm)))"
    unfolding final_ids by (simp only: mset_map)
  also have "\<dots> = mset (map pm_Id (map snd pm))"
    by (simp only: mset_sort mset_map)
  also have "\<dots> = mset (map fst pm)" by (simp only: pmap_ids[OF assms])
  finally have "distinct (map cr_Id (final pm lm)) \<longleftrightarrow> distinct (map fst pm)"
    by (rule mset_eq_imp_distinct_iff)
  then show ?thesis using pmap_entries(1)[OF assms] by simp
qed

lemma final_set: "set (final pm lm) = mk_record lm ` snd ` set pm"
  by (simp add: final_def)

lemma build_payload_Inr:
  assumes "build_payload L xl api labs = Some (log, Inr p)"
  obtains em rules pm lm where
    "build_excel_map L xl = Inr (em, rules)"
    "fetch_pages api em 1 [] [] = Some (log, Inr pm)"
    "pull_labs labs (map fst pm) (init_labs pm) = Inr lm"
    "p = \<lparr> items = final pm (sort_labs lm), bulkRules = rules \<rparr>"
  using assms unfolding build_payload_def
  by (auto split: sum.splits option.splits prod.splits)



lemma items_origin:
  assumes "build_payload L xl api labs = Some (log, Inr p)"
    and "build_excel_map L xl = Inr (em, rules)"
  shows "distinct (map cr_Id (items p))"
    and "sorted (map cr_Id (items p))"
    and "r \<in> set (items p) \<Longrightarrow> versions (cr_Id r) (seen api log) \<noteq> [] \<and>
           entry_of r = mk_entry em (cr_Id r) (last (versions (cr_Id r) (seen api log)))"
    and "versions i (seen api log) \<noteq> [] \<Longrightarrow> i \<in> cr_Id ` set (items p)"
proof -
  from assms(1) obtain em' rules' pm lm where
    a: "build_excel_map L xl = Inr (em', rules')"
    and b: "fetch_pages api em' 1 [] [] = Some (log, Inr pm)"
    and d: "p = \<lparr> items = final pm (sort_labs lm), bulkRules = rules' \<rparr>"
    by (rule build_payload_Inr)
  from a assms(2) have [simp]: "em' = em" by simp
  have pp: "process_page em (seen api log) [] = Inr pm"
    using fetch_pages_entries[OF b] by simp
  show "distinct (map cr_Id (items p))" using final_distinct[OF pp] d by simp
  show "sorted (map cr_Id (items p))" using final_sorted d by simp
  show "versions (cr_Id r) (seen api log) \<noteq> [] \<and>
           entry_of r = mk_entry em (cr_Id r) (last (versions (cr_Id r) (seen api log)))"
    if "r \<in> set (items p)"
  proof -
    from that d obtain k e where ke: "(k, e) \<in> set pm" and r: "r = mk_record (sort_labs lm) e"
      by (auto simp: final_set)
    from pmap_entries(2)[OF pp ke] have v: "versions k (seen api log) \<noteq> []"
      and e: "e = mk_entry em k (last (versions k (seen api log)))" by simp_all
    have "cr_Id r = k" using r e by simp
    then show ?thesis using v e r by simp
  qed
  show "i \<in> cr_Id ` set (items p)" if "versions i (seen api log) \<noteq> []"
  proof -
    from pmap_entries(3)[OF pp that]
    have "(i, mk_entry em i (last (versions i (seen api log)))) \<in> set pm" .
    then have "mk_record (sort_labs lm) (mk_entry em i (last (versions i (seen api log)))) \<in> set (items p)"
      using d by (force simp: final_set)
    then show ?thesis by (force simp: image_iff)
  qed
qed

subsection \<open>The example run\<close>

lemma example_run:
  "build_payload example_lib (Some example_workbook) example_api example_labs
     = Some ([1, 2], Inr example_payload)"
  by code_simp

lemma example_run_500:
  "build_payload example_lib (Some example_workbook) example_api example_labs_500
     = Some ([1, 2], Inr \<lparr> items = example_items [], bulkRules = [example_rule (Some ''40.0'')] \<rparr>)"
  by code_simp

lemma example_run_blank:
  "build_payload example_lib (Some example_workbook) example_api_blank example_labs
     = Some ([1], Inr \<lparr> items = [\<lparr> cr_Id = 5, cr_Label = PStr ''1A405'', cr_ItemName = [], cr_Quantity = PInt 2,
        cr_Type = None, cr_Price = None, cr_LabResults = [] \<rparr>], bulkRules = [example_rule (Some ''40.0'')] \<rparr>)"
  by code_simp


subsection \<open>Order, uniqueness and origin of the items\<close>

lemma items_origin_loaded:
  assumes "build_payload L xl api labs = Some (log, Inr p)"
  shows "distinct (map cr_Id (items p))"
    and "r \<in> set (items p) \<Longrightarrow> versions (cr_Id r) (seen api log) \<noteq> [] \<and>
           entry_of r = mk_entry (loaded_excel_map L xl) (cr_Id r) (last (versions (cr_Id r) (seen api log)))"
    and "versions i (seen api log) \<noteq> [] \<Longrightarrow> i \<in> cr_Id ` set (items p)"
proof -
  from assms obtain em rules where e: "build_excel_map L xl = Inr (em, rules)"
    by (auto elim: build_payload_Inr)
  then have l: "loaded_excel_map L xl = em" by (simp add: loaded_excel_map_def)
  show "distinct (map cr_Id (items p))" by (rule items_origin(1)[OF assms e])
  show "r \<in> set (items p) \<Longrightarrow> versions (cr_Id r) (seen api log) \<noteq> [] \<and>
           entry_of r = mk_entry (loaded_excel_map L xl) (cr_Id r) (last (versions (cr_Id r) (seen api log)))"
    unfolding l by (rule items_origin(3)[OF assms e])
  show "versions i (seen api log) \<noteq> [] \<Longrightarrow> i \<in> cr_Id ` set (items p)"
    by (rule items_origin(4)[OF assms e])
qed





subsection \<open>The join with the product map\<close>

lemma entry_of_fields:
  "entry_of r = e \<Longrightarrow> cr_ItemName r = pm_ItemName e \<and> cr_Type r = pm_Type e \<and> cr_Price r = pm_Price e"
  by (auto simp: entry_of_def)

lemma mk_entry_fields:
  "pm_ItemName (mk_entry em i q) = strip (py_str (resolve_item_name q))"
  "pm_Type (mk_entry em i q) = (case em (strip (py_str (resolve_item_name q))) of None \<Rightarrow> None | Some e \<Rightarrow> pr_type e)"
  "pm_Price (mk_entry em i q) = (case em (strip (py_str (resolve_item_name q))) of None \<Rightarrow> None | Some e \<Rightarrow> pr_price e)"
  by (simp_all add: mk_entry_def Let_def)

lemma process_pkg_retained:
  "retained pkg \<Longrightarrow> pkg_Id pkg = Some i \<Longrightarrow> process_pkg em pkg pm = Inr (AList.update i (mk_entry em i pkg) pm)"
  by (auto simp: process_pkg_def retained_def split: sum.splits)

text \<open>
  Claim C7. A retained unit whose trimmed item name is not a key of the product map is stored
  without an exception, with price and type \<^verbatim>\<open>None\<close>; and every item of the payload whose item
  name is not a key of the product map has price and type \<^verbatim>\<open>None\<close>.
\<close>

theorem metadata_miss_gives_null:
  "(retained pkg \<and> pkg_Id pkg = Some i \<and> em (strip (py_str (resolve_item_name pkg))) = None
      \<longrightarrow> (\<exists>e. process_pkg em pkg pm = Inr (AList.update i e pm) \<and> pm_Price e = None \<and> pm_Type e = None))
   \<and> (build_payload L xl api labs = Some (log, Inr p)
      \<longrightarrow> (\<forall>r\<in>set (items p). loaded_excel_map L xl (cr_ItemName r) = None
             \<longrightarrow> cr_Price r = None \<and> cr_Type r = None))"
proof (intro conjI impI ballI)
  assume a: "retained pkg \<and> pkg_Id pkg = Some i \<and> em (strip (py_str (resolve_item_name pkg))) = None"
  then have "process_pkg em pkg pm = Inr (AList.update i (mk_entry em i pkg) pm)"
    by (simp add: process_pkg_retained)
  moreover from a have "pm_Price (mk_entry em i pkg) = None" "pm_Type (mk_entry em i pkg) = None"
    by (simp_all add: mk_entry_fields)
  ultimately show "\<exists>e. process_pkg em pkg pm = Inr (AList.update i e pm) \<and> pm_Price e = None \<and> pm_Type e = None"
    by blast
next
  fix r
  assume run: "build_payload L xl api labs = Some (log, Inr p)" and r: "r \<in> set (items p)"
    and miss: "loaded_excel_map L xl (cr_ItemName r) = None"
  from items_origin_loaded(2)[OF run r] obtain q where
    e: "entry_of r = mk_entry (loaded_excel_map L xl) (cr_Id r) q" by blast
  from entry_of_fields[OF e] miss show "cr_Price r = None" by (simp add: mk_entry_fields)
  from entry_of_fields[OF e] miss show "cr_Type r = None" by (simp add: mk_entry_fields)
qed

theorem metadata_miss_gives_null_witness:
  "build_payload example_lib (Some example_workbook) example_api example_labs
     = Some ([1, 2], Inr example_payload)
   \<and> hd (items example_payload) \<in> set (items example_payload)
   \<and> cr_ItemName (hd (items example_payload)) = ''Unlisted Item''
   \<and> loaded_excel_map example_lib (Some example_workbook) ''Unlisted Item'' = None
   \<and> cr_Price (hd (items example_payload)) = None \<and> cr_Type (hd (items example_payload)) = None"
proof -
  have m: "loaded_excel_map example_lib (Some example_workbook) ''Unlisted Item'' = None" by code_simp
  have h: "hd (items example_payload) \<in> set (items example_payload)"
    and n: "cr_ItemName (hd (items example_payload)) = ''Unlisted Item''"
    by (simp_all add: example_payload_def example_items_def)
  from metadata_miss_gives_null[of _ _ _ _ example_lib "Some example_workbook" example_api example_labs "[1, 2]" example_payload]
    example_run h n m
  have "cr_Price (hd (items example_payload)) = None \<and> cr_Type (hd (items example_payload)) = None"
    by metis
  with example_run h n m show ?thesis by blast
qed

text \<open>
  Claim C10, amended. Let an item be built from a package without a truthy nested item name.
  If the flat \<^verbatim>\<open>ItemName\<close> of the package is absent or null, the item name of the record is the
  four characters \<^verbatim>\<open>None\<close>, and type and price are what the product map holds under that key
  (null when it holds nothing). If the flat \<^verbatim>\<open>ItemName\<close> is any falsy value, the item name of the
  record is the stripped \<^verbatim>\<open>str\<close> of that value; for the empty string that is the empty string.
\<close>

theorem missing_item_name:
  assumes "build_payload L xl api labs = Some (log, Inr p)"
    and "r \<in> set (items p)"
    and "q = last (versions (cr_Id r) (seen api log))"
    and "\<not> truthy (nested_name q)"
  shows "(pkg_ItemName q = None \<or> pkg_ItemName q = Some PNone \<longrightarrow>
            cr_ItemName r = ''None''
          \<and> cr_Type r = (case loaded_excel_map L xl ''None'' of None \<Rightarrow> None | Some e \<Rightarrow> pr_type e)
          \<and> cr_Price r = (case loaded_excel_map L xl ''None'' of None \<Rightarrow> None | Some e \<Rightarrow> pr_price e))
       \<and> (\<not> truthy (get_or_none (pkg_ItemName q)) \<longrightarrow>
            cr_ItemName r = strip (py_str (get_or_none (pkg_ItemName q))))"
proof -
  from items_origin_loaded(2)[OF assms(1,2)] assms(3)
  have e: "entry_of r = mk_entry (loaded_excel_map L xl) (cr_Id r) q" by simp
  have res: "resolve_item_name q = get_or_none (pkg_ItemName q)"
    using assms(4) by (simp add: resolve_item_name_def Let_def)
  have sn: "strip ''None'' = ''None''" by code_simp
  have g: "pkg_ItemName q = None \<or> pkg_ItemName q = Some PNone \<Longrightarrow> get_or_none (pkg_ItemName q) = PNone"
    by (auto simp: get_or_none_def)
  from entry_of_fields[OF e] show ?thesis
    unfolding mk_entry_fields res using g by (auto simp: sn)
qed

theorem missing_item_name_witness:
  "build_payload example_lib (Some example_workbook) example_api example_labs
     = Some ([1, 2], Inr example_payload)
   \<and> items example_payload ! 1 \<in> set (items example_payload)
   \<and> last (versions 5 (seen example_api [1, 2])) = example_pkg 5 ''LOW INVENTORY'' NotDict None 2
   \<and> \<not> truthy (nested_name (example_pkg 5 ''LOW INVENTORY'' NotDict None 2))
   \<and> pkg_ItemName (example_pkg 5 ''LOW INVENTORY'' NotDict None 2) = None
   \<and> cr_ItemName (items example_payload ! 1) = ''None''
   \<and> cr_Type (items example_payload ! 1) = None"
proof -
  let ?r = "items example_payload ! 1"
  let ?q = "example_pkg 5 ''LOW INVENTORY'' NotDict None 2"
  have r: "?r \<in> set (items example_payload)" and i: "cr_Id ?r = 5"
    by (simp_all add: example_payload_def example_items_def)
  have q: "last (versions 5 (seen example_api [1, 2])) = ?q" by code_simp
  have n: "\<not> truthy (nested_name ?q)" and f: "pkg_ItemName ?q = None"
    by (simp_all add: example_pkg_def nested_name_def)
  have m: "loaded_excel_map example_lib (Some example_workbook) ''None'' = None" by code_simp
  from missing_item_name[OF example_run r, of ?q] q i n f m
  have "cr_ItemName ?r = ''None'' \<and> cr_Type ?r = None" by simp
  with example_run r q n f show ?thesis by blast
qed

text \<open>
  Claim C10 as first stated fails for a flat item name that is the empty string: the package
  is retained, has no truthy name of either kind, and is published with the empty string as
  its item name.
\<close>

theorem blank_item_name_counterexample:
  "retained (example_pkg 5 ''Low Inventory'' NotDict (Some (PStr [])) 2)
   \<and> \<not> truthy (nested_name (example_pkg 5 ''Low Inventory'' NotDict (Some (PStr [])) 2))
   \<and> \<not> truthy (get_or_none (pkg_ItemName (example_pkg 5 ''Low Inventory'' NotDict (Some (PStr [])) 2)))
   \<and> page_data (example_api_blank 1) = [example_pkg 5 ''Low Inventory'' NotDict (Some (PStr [])) 2]
   \<and> build_payload example_lib (Some example_workbook) example_api_blank example_labs
       = Some ([1], Inr \<lparr> items = [\<lparr> cr_Id = 5, cr_Label = PStr ''1A405'', cr_ItemName = [],
                                      cr_Quantity = PInt 2, cr_Type = None, cr_Price = None,
                                      cr_LabResults = [] \<rparr>],
                           bulkRules = [example_rule (Some ''40.0'')] \<rparr>)
   \<and> [] \<noteq> ''None''"
  by code_simp

subsection \<open>Names of the lab results\<close>










subsection \<open>Pagination\<close>







subsection \<open>Change detection\<close>

text \<open>
  Claim C1. After a run that ended with exit code 0, a second run on the same spreadsheet and
  the same API responses, with the same serialiser and digest, finds the hash of
  \<^verbatim>\<open>menu.json\<close> equal to the hash of the new serialisation: it performs no pull, write, add,
  commit or push, leaves the file as it is and ends with exit code 0.
\<close>

theorem second_run_is_noop:
  assumes "run_script L E xl api labs file = Some (acts, 0, file')"
    and "env_dumps E' = env_dumps E" and "env_sha256 E' = env_sha256 E"
  shows "\<exists>log p. build_payload L xl api labs = Some (log, Inr p)
           \<and> file_hash E file' = Some (env_sha256 E (env_dumps E p))
           \<and> run_script L E' xl api labs file' = Some ([], 0, file')"
proof -
  from assms(1) obtain log p where b: "build_payload L xl api labs = Some (log, Inr p)"
    and pub: "publish E (env_dumps E p) file = (acts, 0, file')"
    by (auto simp: run_script_def split: option.splits sum.splits)
  let ?j = "env_dumps E p"
  have h: "file_hash E file' = Some (env_sha256 E ?j)"
  proof (cases "file_hash E file = Some (env_sha256 E ?j)")
    case True
    with pub show ?thesis by (simp add: publish_def Let_def)
  next
    case False
    with pub show ?thesis
      by (auto simp: publish_def Let_def file_hash_def split: prod.splits bool.splits if_splits)
  qed
  have "file_hash E' file' = file_hash E file'"
    using assms(3) by (cases file') (simp_all add: file_hash_def)
  with h have "publish E' (env_dumps E' p) file' = ([], 0, file')"
    using assms(2,3) by (simp add: publish_def Let_def)
  with b have "run_script L E' xl api labs file' = Some ([], 0, file')"
    by (simp add: run_script_def)
  with b h show ?thesis by blast
qed

lemma example_first_run:
  "run_script example_lib example_env (Some example_workbook) example_api example_labs None
     = Some ([GitPull, WriteFile ''Unlisted Item:;None:;Blue Dream 3.5g:CBD,THC,;'', GitAdd, GitCommit, GitPush], 0,
             Some ''Unlisted Item:;None:;Blue Dream 3.5g:CBD,THC,;'')"
  by code_simp

theorem second_run_is_noop_witness:
  "run_script example_lib example_env (Some example_workbook) example_api example_labs None
     = Some ([GitPull, WriteFile ''Unlisted Item:;None:;Blue Dream 3.5g:CBD,THC,;'', GitAdd, GitCommit, GitPush], 0,
             Some ''Unlisted Item:;None:;Blue Dream 3.5g:CBD,THC,;'')
   \<and> run_script example_lib example_env (Some example_workbook) example_api example_labs
         (Some ''Unlisted Item:;None:;Blue Dream 3.5g:CBD,THC,;'')
     = Some ([], 0, Some ''Unlisted Item:;None:;Blue Dream 3.5g:CBD,THC,;'')"
  using example_first_run second_run_is_noop[OF example_first_run, of example_env] by blast

subsection \<open>Lab responses with an error status\<close>

lemma pull_labs_skips_other_status:
  "lr_status (labs pid) \<noteq> 200 \<Longrightarrow> pull_labs labs (pid # pids) lm = pull_labs labs pids lm"
  by (simp add: Let_def)

lemma legacy_pull_labs_not_found:
  "lr_status (labs pid) = 404 \<Longrightarrow> legacy_pull_labs labs (pid # pids) lm = legacy_pull_labs labs pids lm"
  by (simp add: Let_def)

lemma legacy_pull_labs_error_status:
  "is_http_error (lr_status (labs pid)) \<Longrightarrow> lr_status (labs pid) \<noteq> 404 \<Longrightarrow>
     legacy_pull_labs labs (pid # pids) lm = Inl (HTTPError (lr_status (labs pid)))"
  by (auto simp: Let_def is_http_error_def)

lemma legacy_step2_example_500: "legacy_step2 example_labs_500 [7, 5, 3] = Inl 1"
  by code_simp

text \<open>
  Claim C3, evaluated on \<^verbatim>\<open>update_menu_automator.py\<close>. The lab API answers every request with
  the status 500. The run does not abort: it reaches the payload, in which every unit has an
  empty list of lab results, and, \<^verbatim>\<open>menu.json\<close> not existing yet, it pulls, writes the file,
  commits and pushes, and ends with exit code 0 (when \<^verbatim>\<open>git pull\<close> succeeds). The older variant of
  the script stops with exit code 1 on the same responses (\<open>legacy_step2_example_500\<close>).
\<close>

theorem lab_status_500_is_published:
  "build_payload example_lib (Some example_workbook) example_api example_labs_500
     = Some ([1, 2], Inr \<lparr> items = example_items [], bulkRules = [example_rule (Some ''40.0'')] \<rparr>)
   \<and> run_script example_lib E (Some example_workbook) example_api example_labs_500 None
     = Some (if fst (env_git_pull E None)
             then ([GitPull,
                    WriteFile (env_dumps E \<lparr> items = example_items [], bulkRules = [example_rule (Some ''40.0'')] \<rparr>),
                    GitAdd, GitCommit, GitPush], 0,
                   Some (env_dumps E \<lparr> items = example_items [], bulkRules = [example_rule (Some ''40.0'')] \<rparr>))
             else ([GitPull], 1, snd (env_git_pull E None)))"
proof -
  have "publish E j None =
      (if fst (env_git_pull E None) then ([GitPull, WriteFile j, GitAdd, GitCommit, GitPush], 0, Some j)
       else ([GitPull], 1, snd (env_git_pull E None)))" for j
    by (cases "env_git_pull E None") (auto simp: publish_def file_hash_def Let_def)
  with example_run_500 show ?thesis by (simp add: run_script_def)
qed

subsection \<open>The lab results of a record\<close>











subsection \<open>What \<open>strip\<close> removes\<close>

lemma starts_with_iff: "starts_with a s \<longleftrightarrow> (\<exists>r. s = a @ r)"
  by (induction a s rule: starts_with.induct) auto

lemma lstrip_no_prefix:
  "[] \<notin> set ws \<Longrightarrow> w \<in> set ws \<Longrightarrow> \<not> starts_with w (lstrip ws s)"
proof (induction ws s rule: lstrip.induct)
  case (1 ws)
  then show ?case by (cases w) auto
next
  case (2 ws c cs)
  show ?case
  proof (cases "find (\<lambda>w. starts_with w (c # cs)) ws")
    case None
    with "2.prems"(2) have "\<not> starts_with w (c # cs)" by (auto simp: find_None_iff)
    with None show ?thesis by simp
  next
    case (Some w')
    with "2.IH"[OF Some "2.prems"] show ?thesis by simp
  qed
qed

lemma lstrip_suffix: "\<exists>p. s = p @ lstrip ws s"
proof (induction ws s rule: lstrip.induct)
  case (1 ws)
  then show ?case by simp
next
  case (2 ws c cs)
  show ?case
  proof (cases "find (\<lambda>w. starts_with w (c # cs)) ws")
    case None
    then show ?thesis by simp
  next
    case (Some w')
    from "2.IH"[OF Some] obtain p where p: "drop (length w' - 1) cs = p @ lstrip ws (drop (length w' - 1) cs)"
      by blast
    have "c # cs = (c # take (length w' - 1) cs) @ drop (length w' - 1) cs" by simp
    also have "\<dots> = (c # take (length w' - 1) cs @ p) @ lstrip ws (drop (length w' - 1) cs)"
      using p by (metis append.assoc append_Cons)
    finally have "c # cs = (c # take (length w' - 1) cs @ p) @ lstrip ws (c # cs)"
      using Some by simp
    then show ?thesis by (rule exI)
  qed
qed

lemma whitespace_nonempty: "[] \<notin> set whitespace"
  by (simp add: whitespace_def)

lemma strip_surrounding:
  assumes "w \<in> set whitespace"
  shows "\<not> starts_with w (strip s) \<and> \<not> starts_with (rev w) (rev (strip s))"
proof
  let ?t = "lstrip whitespace s"
  have ne: "w \<noteq> []" using assms whitespace_nonempty by auto
  have r: "[] \<notin> set (map rev whitespace)" using whitespace_nonempty by auto
  have "rev w \<in> set (map rev whitespace)" using assms by simp
  from lstrip_no_prefix[OF r this, of "rev ?t"]
  show "\<not> starts_with (rev w) (rev (strip s))" by (simp add: strip_def)
  from lstrip_suffix[of "rev ?t" "map rev whitespace"] obtain p where
    "rev ?t = p @ lstrip (map rev whitespace) (rev ?t)" by blast
  then have "?t = rev (lstrip (map rev whitespace) (rev ?t)) @ rev p"
    by (metis rev_append rev_rev_ident)
  then have t: "?t = strip s @ rev p" by (simp add: strip_def)
  show "\<not> starts_with w (strip s)"
  proof
    assume "starts_with w (strip s)"
    then obtain q where "strip s = w @ q" by (auto simp: starts_with_iff)
    with t have "starts_with w ?t" by (auto simp: starts_with_iff)
    with lstrip_no_prefix[OF whitespace_nonempty assms, of s] show False by simp
  qed
qed

subsection \<open>Prices of the product rows\<close>

lemma product_rows_lookup:
  "product_rows L rows m k =
     (if filter (\<lambda>r. product_name r = k) rows = [] then m k
      else Some (product_entry L (last (filter (\<lambda>r. product_name r = k) rows))))"
  by (induction rows arbitrary: m) auto

lemma build_excel_map_products:
  assumes "build_excel_map L (Some wb) = Inr (em, rules)"
  shows "em = product_rows L (filter has_product (sheet_rows (snd (hd wb)))) Map.empty"
  using assms unfolding build_excel_map_def
  by (auto split: list.splits if_splits sum.splits option.splits simp: Let_def)

text \<open>
  The price of every product row: the cell text (\<^verbatim>\<open>nan\<close> for an empty cell, the empty string
  when the sheet has no price column) is stripped, loses every \<^verbatim>\<open>$\<close> and \<^verbatim>\<open>,\<close> and goes to
  the decimal parser; the row is stored whatever the parser returns.
\<close>

lemma product_row_price:
  assumes "build_excel_map L (Some wb) = Inr (em, rules)"
    and "row \<in> set (sheet_rows (snd (hd wb)))" and "has_product row"
  shows "pr_price (product_entry L row)
           = lib_money L (money_text (case row ''Price'' of None \<Rightarrow> [] | Some c \<Rightarrow> cell_str (Some c)))"
    and "money_text s = filter (\<lambda>c. c \<noteq> CHR ''$'' \<and> c \<noteq> CHR '','') (strip s)"
    and "em (product_name row)
         = Some (product_entry L (last (filter (\<lambda>r. has_product r \<and> product_name r = product_name row)
                                               (sheet_rows (snd (hd wb))))))"
proof -
  let ?rows = "sheet_rows (snd (hd wb))"
  show "money_text s = filter (\<lambda>c. c \<noteq> CHR ''$'' \<and> c \<noteq> CHR '','') (strip s)"
    by (simp add: money_text_def remove_char_def conj_commute)
  show "pr_price (product_entry L row)
           = lib_money L (money_text (case row ''Price'' of None \<Rightarrow> [] | Some c \<Rightarrow> cell_str (Some c)))"
    by (cases "row ''Price''") (simp_all add: product_entry_def Let_def to_money_def)
  have f: "filter (\<lambda>r. product_name r = product_name row) (filter has_product ?rows)
          = filter (\<lambda>r. has_product r \<and> product_name r = product_name row) ?rows"
    by (simp add: conj_commute)
  from assms(2,3) have "row \<in> set (filter (\<lambda>r. has_product r \<and> product_name r = product_name row) ?rows)"
    by simp
  then have ne: "filter (\<lambda>r. has_product r \<and> product_name r = product_name row) ?rows \<noteq> []"
    by (metis empty_iff empty_set)
  show "em (product_name row)
         = Some (product_entry L (last (filter (\<lambda>r. has_product r \<and> product_name r = product_name row) ?rows)))"
    unfolding build_excel_map_products[OF assms(1)] product_rows_lookup f using ne by simp
qed

lemma empty_price_cell:
  "row ''Price'' = Some NaN \<Longrightarrow> pr_price (product_entry L row) = lib_money L ''nan''"
proof -
  have "money_text ''nan'' = ''nan''" by code_simp
  then show "row ''Price'' = Some NaN \<Longrightarrow> pr_price (product_entry L row) = lib_money L ''nan''"
    by (simp add: product_entry_def Let_def to_money_def)
qed

text \<open>
  Claim C8, evaluated on a product row whose price cell is empty. \<^verbatim>\<open>_to_money\<close> tests its
  argument for \<^verbatim>\<open>None\<close> only; the empty cell is the float NaN, its text \<^verbatim>\<open>nan\<close> is accepted by
  the decimal parser, and the price of the row is the float NaN where the claim says null.
  The record of package 7 is published with that price.
\<close>

theorem empty_price_cell_is_published_as_nan:
  "loaded_excel_map example_lib (Some example_workbook_no_price) ''Blue Dream 3.5g''
     = Some \<lparr> pr_price = Some ''nan'', pr_type = Some ''Flower'', pr_bulk_pricing = None \<rparr>
   \<and> build_payload example_lib (Some example_workbook_no_price) example_api example_labs
     = Some ([1, 2], Inr
         \<lparr> items =
             [\<lparr> cr_Id = 3, cr_Label = PStr ''1A403'', cr_ItemName = ''Unlisted Item'', cr_Quantity = PInt 1,
                cr_Type = None, cr_Price = None, cr_LabResults = [] \<rparr>,
              \<lparr> cr_Id = 5, cr_Label = PStr ''1A405'', cr_ItemName = ''None'', cr_Quantity = PInt 2,
                cr_Type = None, cr_Price = None, cr_LabResults = [] \<rparr>,
              \<lparr> cr_Id = 7, cr_Label = PStr ''1A407'', cr_ItemName = ''Blue Dream 3.5g'', cr_Quantity = PInt 11,
                cr_Type = Some ''Flower'', cr_Price = Some ''nan'',
                cr_LabResults = [example_lab ''CBD'' ''0.3'', example_lab ''THC'' ''21.4''] \<rparr>],
           bulkRules = [] \<rparr>)"
  by code_simp

subsection \<open>Bulk rules\<close>

text \<open>
  A row that passes the guard is never dropped: a quantity that \<^verbatim>\<open>int\<close> rejects ends the
  loop with the exception, and otherwise the rule is appended with the price that
  \<^verbatim>\<open>_to_money\<close> returns, \<^verbatim>\<open>None\<close> included. An empty cell passes the guard.
\<close>

lemma bulk_row_bad_quantity:
  "complete_row row \<Longrightarrow> cell_int L (row ''MinQty'') = Inl e \<Longrightarrow> bulk_rows L (row # rows) acc = Inl e"
  by simp

lemma bulk_row_appended:
  "complete_row row \<Longrightarrow> cell_int L (row ''MinQty'') = Inr n \<Longrightarrow>
     bulk_rows L (row # rows) acc =
       bulk_rows L rows (acc @ [\<lparr> br_ProductGroup = strip (cell_str (row ''ProductGroup'')), br_MinQty = n,
                                   br_Price = to_money L (row ''Price'') \<rparr>])"
  by simp

lemma empty_cells_pass_guard:
  "row ''ProductGroup'' = Some NaN \<Longrightarrow> row ''MinQty'' = Some NaN \<Longrightarrow> row ''Price'' = Some NaN
     \<Longrightarrow> complete_row row"
  by (simp add: complete_row_def)

text \<open>
  Claim C4, evaluated on five \<^verbatim>\<open>BulkRules\<close> sheets of one row each. An empty quantity cell
  and a quantity that is no integer end the run with \<^verbatim>\<open>ValueError\<close> before the first request;
  a price that is no decimal is published as a rule with the price null; an empty product
  group cell is published as the group \<^verbatim>\<open>nan\<close>; an empty price cell is published with the
  float NaN as price. The claim says that each of these rows is dropped and the run goes on.
\<close>

theorem bulk_rule_failures_not_dropped:
  "build_payload example_lib (Some (example_workbook_with [[Str ''Flower'', NaN, Str ''$40.00'']]))
        example_api example_labs
      = Some ([], Inl ValueError)
   \<and> build_payload example_lib (Some (example_workbook_with [[Str ''Flower'', Str ''ten'', Str ''$40.00'']]))
        example_api example_labs
      = Some ([], Inl ValueError)
   \<and> build_payload example_lib (Some (example_workbook_with [[Str ''Flower'', Str ''10'', Str ''call us'']]))
        example_api example_labs
      = Some ([1, 2], Inr (example_payload\<lparr> bulkRules := [example_rule None] \<rparr>))
   \<and> build_payload example_lib (Some (example_workbook_with [[NaN, Str ''10'', Str ''$40.00'']]))
        example_api example_labs
      = Some ([1, 2], Inr (example_payload\<lparr> bulkRules :=
           [\<lparr> br_ProductGroup = ''nan'', br_MinQty = 10, br_Price = Some ''40.0'' \<rparr>] \<rparr>))
   \<and> build_payload example_lib (Some (example_workbook_with [[Str ''Flower'', Str ''10'', NaN]]))
        example_api example_labs
      = Some ([1, 2], Inr (example_payload\<lparr> bulkRules := [example_rule (Some ''nan'')] \<rparr>))"
  by code_simp

subsection \<open>A package that changes its room between two pages\<close>


end
